theory Spec2Isabelle
  imports Main "HOL-Library.Sublist" "HOL-Library.Log_Nat"
begin

section \<open>Python values\<close>

text \<open>
  The collector builds its report from dictionaries, lists and scalars.  A binary64 float
  is kept by its exact rational value (the sign of zero is not distinguished), with the two
  infinities and NaN beside the finite values.  A dictionary is an association list in
  insertion order, as Python dictionaries are; its keys are strings, as every key of the
  report is.
\<close>

datatype pyfloat = Finite rat | Infinity bool | NaN

datatype pyval =
    VNone
  | VBool bool
  | VInt int
  | VFloat pyfloat
  | VStr string
  | VDict "(string \<times> pyval) list"
  | VList "pyval list"

text \<open>\<open>d[k] = v\<close>: an existing key keeps its position and takes the new value, a new key
  goes to the end.\<close>

fun dict_setitem :: "('k \<times> 'v) list \<Rightarrow> 'k \<Rightarrow> 'v \<Rightarrow> ('k \<times> 'v) list" where
  "dict_setitem [] k v = [(k, v)]"
| "dict_setitem ((k', v') # d) k v =
     (if k' = k then (k', v) # d else (k', v') # dict_setitem d k v)"

text \<open>\<open>dict(items)\<close>: the pairs are stored one after the other into an empty dictionary.\<close>

definition py_dict :: "('k \<times> 'v) list \<Rightarrow> ('k \<times> 'v) list" where
  "py_dict its = foldl (\<lambda>d (k, v). dict_setitem d k v) [] its"



text \<open>A well-formed dictionary has no key twice, at any depth.\<close>

fun wf_val :: "pyval \<Rightarrow> bool"
and wf_dict :: "(string \<times> pyval) list \<Rightarrow> bool"
and wf_list :: "pyval list \<Rightarrow> bool"
where
  "wf_val (VDict d) = wf_dict d"
| "wf_val (VList xs) = wf_list xs"
| "wf_val v = True"
| "wf_dict [] = True"
| "wf_dict ((k, v) # d) = (k \<notin> set (map fst d) \<and> wf_val v \<and> wf_dict d)"
| "wf_list [] = True"
| "wf_list (x # xs) = (wf_val x \<and> wf_list xs)"

fun is_scalar :: "pyval \<Rightarrow> bool" where
  "is_scalar (VDict d) = False"
| "is_scalar (VList xs) = False"
| "is_scalar v = True"

text \<open>The number of scalar leaves of a nested value.\<close>

fun leaves :: "pyval \<Rightarrow> nat"
and leaves_dict :: "(string \<times> pyval) list \<Rightarrow> nat"
and leaves_list :: "pyval list \<Rightarrow> nat"
where
  "leaves (VDict d) = leaves_dict d"
| "leaves (VList xs) = leaves_list xs"
| "leaves v = 1"
| "leaves_dict [] = 0"
| "leaves_dict ((k, v) # d) = leaves v + leaves_dict d"
| "leaves_list [] = 0"
| "leaves_list (x # xs) = leaves x + leaves_list xs"

section \<open>Flattening\<close>

text \<open>The decimal digits of an index, as an f-string prints it.\<close>

definition digit_char :: "nat \<Rightarrow> char" where
  "digit_char n = ''0123456789'' ! n"

fun str_nat :: "nat \<Rightarrow> string" where
  "str_nat n =
     (if n < 10 then [digit_char n] else str_nat (n div 10) @ [digit_char (n mod 10)])"

text \<open>
  \<^verbatim>\<open>new_key = f"{parent_key}{sep}{k}" if parent_key else k\<close>: an empty parent path is
  false, so the key stands alone.
\<close>

definition new_key :: "string \<Rightarrow> string \<Rightarrow> string \<Rightarrow> string" where
  "new_key parent_key sep k = (if parent_key \<noteq> [] then parent_key @ sep @ k else k)"

text \<open>\<^verbatim>\<open>f"{new_key} [{i}]"\<close>\<close>

definition index_key :: "string \<Rightarrow> nat \<Rightarrow> string" where
  "index_key nk i = nk @ '' ['' @ str_nat i @ '']''"

text \<open>
  \<open>flatten_dict\<close> is the source function; \<open>flatten_items\<close> is its loop over
  \<open>d.items()\<close>, returning the list \<open>items\<close>, and \<open>flatten_enumerate\<close> is the inner loop
  over \<open>enumerate(v)\<close>, started at index 0.  The recursive calls return dictionaries, whose
  pairs are appended to \<open>items\<close>.
\<close>

fun flatten_dict :: "(string \<times> pyval) list \<Rightarrow> string \<Rightarrow> string \<Rightarrow> (string \<times> pyval) list"
and flatten_items :: "(string \<times> pyval) list \<Rightarrow> string \<Rightarrow> string \<Rightarrow> (string \<times> pyval) list"
and flatten_enumerate :: "pyval list \<Rightarrow> nat \<Rightarrow> string \<Rightarrow> string \<Rightarrow> (string \<times> pyval) list"
where
  "flatten_dict d parent_key sep = py_dict (flatten_items d parent_key sep)"
| "flatten_items [] parent_key sep = []"
| "flatten_items ((k, v) # rest) parent_key sep =
     (case v of
        VDict c \<Rightarrow> flatten_dict c (new_key parent_key sep k) sep
      | VList xs \<Rightarrow> flatten_enumerate xs 0 (new_key parent_key sep k) sep
      | _ \<Rightarrow> [(new_key parent_key sep k, v)])
     @ flatten_items rest parent_key sep"
| "flatten_enumerate [] i nk sep = []"
| "flatten_enumerate (item # xs) i nk sep =
     (case item of
        VDict c \<Rightarrow> flatten_dict c (index_key nk i) sep
      | _ \<Rightarrow> [(index_key nk i, item)])
     @ flatten_enumerate xs (Suc i) nk sep"

section \<open>Exceptions\<close>

text \<open>
  An exception is kept by its class and by the text \<open>str(e)\<close> that the handlers print.
  Every class here is a subclass of \<open>Exception\<close>, so \<^verbatim>\<open>except Exception\<close> catches all of
  them.  A computation that may raise returns \<open>Inl\<close> of the exception.
\<close>

datatype exn_class =
    OverflowError | ZeroDivisionError | IndexError | KeyError | TypeError | AttributeError
  | OSError | OtherError

datatype py_exception = PyExc (exc_class: exn_class) (exc_str: string)

definition bind_exc :: "py_exception + 'a \<Rightarrow> ('a \<Rightarrow> py_exception + 'b) \<Rightarrow> py_exception + 'b" where
  "bind_exc m f = (case m of Inl ex \<Rightarrow> Inl ex | Inr x \<Rightarrow> f x)"

text \<open>\<^verbatim>\<open>try: body except Exception as e: handler\<close>\<close>

definition try_except ::
  "py_exception + 'a \<Rightarrow> (py_exception \<Rightarrow> py_exception + 'a) \<Rightarrow> py_exception + 'a" where
  "try_except body handler = (case body of Inl ex \<Rightarrow> handler ex | Inr x \<Rightarrow> Inr x)"

section \<open>Float arithmetic\<close>

text \<open>
  Python floats are IEEE 754 binary64 numbers: 53 significant bits, exponents of the least
  bit from \<open>-1074\<close>, round to nearest with ties to even, overflow from \<open>2^1024\<close>.
\<close>

definition round_half_even :: "rat \<Rightarrow> int" where
  "round_half_even x =
     (let f = \<lfloor>x\<rfloor>; d = x - of_int f
      in if d < 1 / 2 then f else if 1 / 2 < d then f + 1 else if even f then f else f + 1)"

text \<open>\<open>ilog2 x\<close> is the \<open>k\<close> with \<open>2^k \<le> |x| < 2^(k+1)\<close>, for \<open>x \<noteq> 0\<close>.\<close>

definition ilog2 :: "rat \<Rightarrow> int" where
  "ilog2 x =
     (if 1 \<le> \<bar>x\<bar> then bitlen \<lfloor>\<bar>x\<bar>\<rfloor> - 1 else - bitlen (\<lceil>1 / \<bar>x\<bar>\<rceil> - 1))"

text \<open>The binary64 number nearest to a rational.\<close>

definition to_double :: "rat \<Rightarrow> pyfloat" where
  "to_double x =
     (if x = 0 then Finite 0
      else let e = max (ilog2 x - 52) (- 1074);
               y = of_int (round_half_even (x / 2 powi e)) * 2 powi e
           in if 2 ^ 1024 \<le> \<bar>y\<bar> then Infinity (0 < x) else Finite y)"

text \<open>
  \<open>a / b\<close> on integers: the correctly rounded quotient; \<open>ZeroDivisionError\<close> for a zero
  divisor, \<open>OverflowError\<close> when the quotient is too large for a float.
\<close>

definition int_truediv :: "int \<Rightarrow> int \<Rightarrow> py_exception + pyfloat" where
  "int_truediv a b =
     (if b = 0 then Inl (PyExc ZeroDivisionError ''division by zero'')
      else case to_double (of_int a / of_int b) of
             Finite q \<Rightarrow> Inr (Finite q)
           | _ \<Rightarrow> Inl (PyExc OverflowError ''integer division result too large for a float''))"

text \<open>\<open>x * y\<close> on floats raises nothing: it overflows to an infinity.\<close>

definition float_mul :: "pyfloat \<Rightarrow> pyfloat \<Rightarrow> pyfloat" where
  "float_mul x y =
     (case (x, y) of
        (NaN, _) \<Rightarrow> NaN
      | (_, NaN) \<Rightarrow> NaN
      | (Finite a, Finite b) \<Rightarrow> to_double (a * b)
      | (Infinity s, Finite b) \<Rightarrow> (if b = 0 then NaN else Infinity (s = (0 < b)))
      | (Finite a, Infinity t) \<Rightarrow> (if a = 0 then NaN else Infinity ((0 < a) = t))
      | (Infinity s, Infinity t) \<Rightarrow> Infinity (s = t))"

text \<open>
  \<open>round(x, ndigits)\<close> for a float and \<open>0 \<le> ndigits\<close>: infinities and NaN round to
  themselves, as does every float when \<open>ndigits\<close> exceeds 323; otherwise the float is
  rounded to \<open>ndigits\<close> decimal places, ties to even, and the decimal is converted back to
  the nearest float, with \<open>OverflowError\<close> when that is out of range.
\<close>

definition py_round :: "pyfloat \<Rightarrow> nat \<Rightarrow> py_exception + pyfloat" where
  "py_round x ndigits =
     (case x of
        Finite r \<Rightarrow>
          (if 323 < ndigits then Inr x
           else case to_double (of_int (round_half_even (r * 10 ^ ndigits)) / 10 ^ ndigits) of
                  Finite q \<Rightarrow> Inr (Finite q)
                | _ \<Rightarrow> Inl (PyExc OverflowError ''rounded value too large to represent''))
      | _ \<Rightarrow> Inr x)"

section \<open>The host environment\<close>

text \<open>
  The collector reads the host through \<open>platform\<close>, \<open>psutil\<close>, \<open>GPUtil\<close> and the clock.
  Each call either returns a value or raises; the environment fixes the outcome of every
  call the program makes.  The named tuples of \<open>psutil\<close> and the GPU objects of \<open>GPUtil\<close>
  are records.
\<close>

record scpufreq =
  freq_current :: pyfloat
  freq_min :: pyfloat
  freq_max :: pyfloat

record svmem =
  vm_total :: int
  vm_available :: int
  vm_used :: int
  vm_percent :: pyfloat

record sdiskpart =
  device :: string
  mountpoint :: string
  fstype :: string

record sdiskusage =
  du_total :: int
  du_used :: int
  du_free :: int
  du_percent :: pyfloat

record gpu =
  gpu_id :: int
  gpu_name :: string
  gpu_driver :: string
  memoryTotal :: pyfloat
  memoryUsed :: pyfloat
  memoryFree :: pyfloat
  gpu_load :: pyfloat
  temperature :: pyfloat

record env =
  platform_system :: "py_exception + string"
  platform_node :: "py_exception + string"
  platform_release :: "py_exception + string"
  platform_version :: "py_exception + string"
  platform_machine :: "py_exception + string"
  platform_processor :: "py_exception + string"
  cpu_freq :: "py_exception + scpufreq option"
  cpu_count_physical :: "py_exception + int option"
  cpu_count_logical :: "py_exception + int option"
  cpu_percent_percpu :: "py_exception + pyfloat list"
  cpu_percent_total :: "py_exception + pyfloat"
  virtual_memory :: "py_exception + svmem"
  disk_partitions :: "py_exception + sdiskpart list"
  disk_usage :: "string \<Rightarrow> py_exception + sdiskusage"
  HAS_GPU :: bool
  getGPUs :: "py_exception + gpu list"
  now_isoformat :: string

section \<open>The collector\<close>

definition version :: string where
  "version = ''1.0.0''"

definition opt_int :: "int option \<Rightarrow> pyval" where
  "opt_int n = (case n of None \<Rightarrow> VNone | Some i \<Rightarrow> VInt i)"

text \<open>\<^verbatim>\<open>round(n / (1024 ** 3), 2)\<close>, the conversion of a byte count used by the memory and
  disk getters.\<close>

definition gigabytes :: "int \<Rightarrow> py_exception + pyfloat" where
  "gigabytes n = bind_exc (int_truediv n (1024 ^ 3)) (\<lambda>q. py_round q 2)"

definition get_cpu_info :: "env \<Rightarrow> py_exception + pyval" where
  "get_cpu_info e =
     try_except
       (bind_exc (cpu_freq e) (\<lambda>freq.
        bind_exc (cpu_count_physical e) (\<lambda>physical.
        bind_exc (cpu_count_logical e) (\<lambda>logical.
        bind_exc (cpu_percent_percpu e) (\<lambda>percpu.
        bind_exc (cpu_percent_total e) (\<lambda>total.
          Inr (VDict
            [(''Physical cores'', opt_int physical),
             (''Total cores'', opt_int logical),
             (''Max Frequency (MHz)'',
                case freq of Some fr \<Rightarrow> VFloat (freq_max fr) | None \<Rightarrow> VStr ''N/A''),
             (''Min Frequency (MHz)'',
                case freq of Some fr \<Rightarrow> VFloat (freq_min fr) | None \<Rightarrow> VStr ''N/A''),
             (''Current Frequency (MHz)'',
                case freq of Some fr \<Rightarrow> VFloat (freq_current fr) | None \<Rightarrow> VStr ''N/A''),
             (''CPU Usage per Core (%)'', VList (map VFloat percpu)),
             (''Total CPU Usage (%)'', VFloat total)])))))))
       (\<lambda>ex. Inr (VDict [(''Error'', VStr (''Failed to get CPU info: '' @ exc_str ex))]))"

definition get_memory_info :: "env \<Rightarrow> py_exception + pyval" where
  "get_memory_info e =
     try_except
       (bind_exc (virtual_memory e) (\<lambda>svmem.
        bind_exc (gigabytes (vm_total svmem)) (\<lambda>total.
        bind_exc (gigabytes (vm_available svmem)) (\<lambda>available.
        bind_exc (gigabytes (vm_used svmem)) (\<lambda>used.
          Inr (VDict
            [(''Total (GB)'', VFloat total),
             (''Available (GB)'', VFloat available),
             (''Used (GB)'', VFloat used),
             (''Percentage (%)'', VFloat (vm_percent svmem))]))))))
       (\<lambda>ex. Inr (VDict [(''Error'', VStr (''Failed to get memory info: '' @ exc_str ex))]))"

text \<open>The body of the loop of \<open>get_disk_info\<close>: the inner \<^verbatim>\<open>try\<close> with its handler, which
  yields the record appended to \<open>disk_data\<close> for the partition \<open>p\<close>.\<close>

definition disk_entry :: "env \<Rightarrow> sdiskpart \<Rightarrow> pyval" where
  "disk_entry e p =
     (case bind_exc (disk_usage e (mountpoint p)) (\<lambda>usage.
           bind_exc (gigabytes (du_total usage)) (\<lambda>total.
           bind_exc (gigabytes (du_used usage)) (\<lambda>used.
           bind_exc (gigabytes (du_free usage)) (\<lambda>free.
             Inr (VDict
               [(''Device'', VStr (device p)),
                (''Mountpoint'', VStr (mountpoint p)),
                (''File system type'', VStr (fstype p)),
                (''Total Size (GB)'', VFloat total),
                (''Used (GB)'', VFloat used),
                (''Free (GB)'', VFloat free),
                (''Percentage (%)'', VFloat (du_percent usage))]))))) of
        Inr entry \<Rightarrow> entry
      | Inl ex \<Rightarrow>
          VDict [(''Device'', VStr (device p)),
                 (''Error'', VStr (''Failed to read partition: '' @ exc_str ex))])"

text \<open>The loop over the partitions, with the list \<open>disk_data\<close> built so far.\<close>

fun disk_loop :: "env \<Rightarrow> sdiskpart list \<Rightarrow> pyval list \<Rightarrow> pyval list" where
  "disk_loop e [] disk_data = disk_data"
| "disk_loop e (p # ps) disk_data = disk_loop e ps (disk_data @ [disk_entry e p])"

text \<open>The outer handler appends its record to \<open>disk_data\<close>, which is still empty when
  \<open>disk_partitions\<close> raises; nothing else in the outer \<^verbatim>\<open>try\<close> can raise.\<close>

definition get_disk_info :: "env \<Rightarrow> py_exception + pyval list" where
  "get_disk_info e =
     (case disk_partitions e of
        Inr partitions \<Rightarrow> Inr (disk_loop e partitions [])
      | Inl ex \<Rightarrow> Inr ([] @ [VDict [(''Error'', VStr (''Failed to get disk info: '' @ exc_str ex))]]))"

definition get_os_info :: "env \<Rightarrow> py_exception + pyval" where
  "get_os_info e =
     try_except
       (bind_exc (platform_system e) (\<lambda>system.
        bind_exc (platform_node e) (\<lambda>node.
        bind_exc (platform_release e) (\<lambda>release.
        bind_exc (platform_version e) (\<lambda>ver.
        bind_exc (platform_machine e) (\<lambda>machine.
        bind_exc (platform_processor e) (\<lambda>processor.
          Inr (VDict
            [(''System'', VStr system),
             (''Node Name'', VStr node),
             (''Release'', VStr release),
             (''Version'', VStr ver),
             (''Machine'', VStr machine),
             (''Processor'', VStr processor)]))))))))
       (\<lambda>ex. Inr (VDict [(''Error'', VStr (''Failed to get OS info: '' @ exc_str ex))]))"

text \<open>The key \<open>Temperature (\<degree>C)\<close>, with the degree sign in UTF-8.\<close>

definition temperature_key :: string where
  "temperature_key = ''Temperature ('' @ [CHR 0xC2, CHR 0xB0] @ ''C)''"

definition gpu_record :: "gpu \<Rightarrow> py_exception + pyval" where
  "gpu_record g =
     bind_exc (py_round (float_mul (gpu_load g) (Finite 100)) 1) (\<lambda>load.
       Inr (VDict
         [(''ID'', VInt (gpu_id g)),
          (''Name'', VStr (gpu_name g)),
          (''Driver Version'', VStr (gpu_driver g)),
          (''Memory Total (MB)'', VFloat (memoryTotal g)),
          (''Memory Used (MB)'', VFloat (memoryUsed g)),
          (''Memory Free (MB)'', VFloat (memoryFree g)),
          (''Load (%)'', VFloat load),
          (temperature_key, VFloat (temperature g))]))"

fun gpu_loop :: "gpu list \<Rightarrow> pyval list \<Rightarrow> py_exception + pyval list" where
  "gpu_loop [] gpu_list = Inr gpu_list"
| "gpu_loop (g # gs) gpu_list =
     bind_exc (gpu_record g) (\<lambda>r. gpu_loop gs (gpu_list @ [r]))"

definition get_gpu_info :: "env \<Rightarrow> py_exception + pyval list" where
  "get_gpu_info e =
     (if \<not> HAS_GPU e then Inr [VDict [(''Info'', VStr ''GPUtil package not installed'')]]
      else
        try_except
          (bind_exc (getGPUs e) (\<lambda>gpus.
           bind_exc (gpu_loop gpus []) (\<lambda>gpu_list.
             Inr (if gpus \<noteq> [] then gpu_list
                  else [VDict [(''Info'', VStr ''No GPUs detected'')]]))))
          (\<lambda>ex. Inr [VDict [(''Error'', VStr (''Failed to get GPU info: '' @ exc_str ex))]]))"

definition collect_all_info :: "env \<Rightarrow> py_exception + (string \<times> pyval) list" where
  "collect_all_info e =
     bind_exc (get_os_info e) (\<lambda>os_info.
     bind_exc (get_cpu_info e) (\<lambda>cpu_info.
     bind_exc (get_memory_info e) (\<lambda>mem_info.
     bind_exc (get_disk_info e) (\<lambda>disk_info.
     bind_exc (get_gpu_info e) (\<lambda>gpu_info.
       Inr [(''Timestamp'', VStr (now_isoformat e)),
            (''Version'', VStr version),
            (''OS Info'', os_info),
            (''CPU Info'', cpu_info),
            (''Memory Info'', mem_info),
            (''Disk Info'', VList disk_info),
            (''GPU Info'', VList gpu_info)])))))"

section \<open>The reporter\<close>

text \<open>
  \<open>str\<close> and \<open>repr\<close> of a value, as an f-string prints it.  The digits that Python prints
  for a float and the quoting of a string inside a container come from the interpreter and
  are parameters of the model.
\<close>

record pyfmt =
  repr_float :: "pyfloat \<Rightarrow> string"
  repr_str :: "string \<Rightarrow> string"

definition str_int :: "int \<Rightarrow> string" where
  "str_int i = (if i < 0 then ''-'' @ str_nat (nat (- i)) else str_nat (nat i))"

fun py_repr :: "pyfmt \<Rightarrow> pyval \<Rightarrow> string"
and repr_items :: "pyfmt \<Rightarrow> (string \<times> pyval) list \<Rightarrow> string"
and repr_elems :: "pyfmt \<Rightarrow> pyval list \<Rightarrow> string"
where
  "py_repr f VNone = ''None''"
| "py_repr f (VBool b) = (if b then ''True'' else ''False'')"
| "py_repr f (VInt i) = str_int i"
| "py_repr f (VFloat x) = repr_float f x"
| "py_repr f (VStr s) = repr_str f s"
| "py_repr f (VDict d) = ''{'' @ repr_items f d @ ''}''"
| "py_repr f (VList xs) = ''['' @ repr_elems f xs @ '']''"
| "repr_items f [] = []"
| "repr_items f ((k, v) # d) =
     repr_str f k @ '': '' @ py_repr f v @ (if d = [] then [] else '', '' @ repr_items f d)"
| "repr_elems f [] = []"
| "repr_elems f (x # xs) = py_repr f x @ (if xs = [] then [] else '', '' @ repr_elems f xs)"










section \<open>Standard output and files\<close>

text \<open>
  A file holds what was written to it: the rows given to the CSV writer, or the document
  given to \<open>json.dump\<close> (the text encodings of both are not modelled).  The I/O
  environment decides whether opening a file for writing raises, whether the \<open>n\<close>-th write
  to it raises, whether flushing and closing it at the end of the \<^verbatim>\<open>with\<close> block raises,
  how many of the rows written reach the file when its writing fails, and whether
  \<open>print\<close> raises on a line (a closed or full standard output, a character that its
  encoding lacks).  The recursion limit of the interpreter is not modelled: the values are
  nested less deeply than it allows.
\<close>

datatype file_content = CsvFile "pyval list list" | JsonFile pyval | TruncatedFile

type_synonym filesystem = "string \<Rightarrow> file_content option"

record io_env =
  open_error :: "string \<Rightarrow> py_exception option"
  write_error :: "string \<Rightarrow> nat \<Rightarrow> py_exception option"
  close_error :: "string \<Rightarrow> py_exception option"
  flushed :: "string \<Rightarrow> nat"
  print_error :: "string \<Rightarrow> py_exception option"




text \<open>The calls of \<open>writer.writerow\<close>, from the \<open>i\<close>-th write on, with the rows written so
  far; it stops at the first write that raises.\<close>

fun csv_writerows ::
  "io_env \<Rightarrow> string \<Rightarrow> pyval list list \<Rightarrow> nat \<Rightarrow> pyval list list
     \<Rightarrow> pyval list list \<times> py_exception option" where
  "csv_writerows io filename [] i written = (written, None)"
| "csv_writerows io filename (row # rows) i written =
     (case write_error io filename i of
        Some ex \<Rightarrow> (written, Some ex)
      | None \<Rightarrow> csv_writerows io filename rows (Suc i) (written @ [row]))"

definition saved_message :: "string \<Rightarrow> string" where
  "saved_message filename =
     [CHR 0xE2, CHR 0x9C, CHR 0x85] @ '' Successfully saved to '' @ filename"

definition failed_message :: "string \<Rightarrow> py_exception \<Rightarrow> string" where
  "failed_message kind ex =
     [CHR 0xE2, CHR 0x9D, CHR 0x8C] @ '' Failed to save '' @ kind @ '': '' @ exc_str ex"

text \<open>What a call leaves behind: the files, the lines printed, and the exception that
  escaped from it, if any.\<close>

record outcome =
  files :: filesystem
  printed :: "string list"
  raised :: "py_exception option"

text \<open>
  The body of the \<^verbatim>\<open>try\<close> of \<open>save_to_csv\<close>: flatten, open, write the header and the rows,
  close at the end of the \<^verbatim>\<open>with\<close> block, print the success line.  It returns the file
  system and the exception raised, if any.  A file whose writing or closing failed holds
  the rows that reached it.
\<close>

definition csv_try ::
  "io_env \<Rightarrow> (string \<times> pyval) list \<Rightarrow> string \<Rightarrow> filesystem
     \<Rightarrow> filesystem \<times> py_exception option" where
  "csv_try io data filename fs =
     (let flat_data = flatten_dict data [] '': '' in
      case open_error io filename of
        Some ex \<Rightarrow> (fs, Some ex)
      | None \<Rightarrow>
          (case csv_writerows io filename
                  ([VStr ''Property'', VStr ''Value'']
                     # map (\<lambda>(key, value). [VStr key, value]) flat_data) 0 [] of
             (written, Some ex) \<Rightarrow>
               (fs(filename \<mapsto> CsvFile (take (flushed io filename) written)), Some ex)
           | (written, None) \<Rightarrow>
               (case close_error io filename of
                  Some ex \<Rightarrow>
                    (fs(filename \<mapsto> CsvFile (take (flushed io filename) written)), Some ex)
                | None \<Rightarrow>
                    (fs(filename \<mapsto> CsvFile written),
                     print_error io (saved_message filename)))))"

text \<open>The handler \<^verbatim>\<open>except Exception as e: print(...)\<close>: its own \<open>print\<close> is not guarded.\<close>

definition save_handler ::
  "io_env \<Rightarrow> string \<Rightarrow> string \<Rightarrow> filesystem \<times> py_exception option \<Rightarrow> outcome" where
  "save_handler io kind filename r =
     (case r of
        (fs', None) \<Rightarrow> \<lparr> files = fs', printed = [saved_message filename], raised = None \<rparr>
      | (fs', Some ex) \<Rightarrow>
          (case print_error io (failed_message kind ex) of
             None \<Rightarrow> \<lparr> files = fs', printed = [failed_message kind ex], raised = None \<rparr>
           | Some ex' \<Rightarrow> \<lparr> files = fs', printed = [], raised = Some ex' \<rparr>))"

definition save_to_csv ::
  "io_env \<Rightarrow> (string \<times> pyval) list \<Rightarrow> string \<Rightarrow> filesystem \<Rightarrow> outcome" where
  "save_to_csv io data filename fs = save_handler io ''CSV'' filename (csv_try io data filename fs)"





section \<open>Example environments\<close>

text \<open>A host on which every query raises and \<open>GPUtil\<close> is not installed.\<close>

definition failing_env :: env where
  "failing_env =
     \<lparr> platform_system = Inl (PyExc OSError ''no uname''),
       platform_node = Inl (PyExc OSError ''no uname''),
       platform_release = Inl (PyExc OSError ''no uname''),
       platform_version = Inl (PyExc OSError ''no uname''),
       platform_machine = Inl (PyExc OSError ''no uname''),
       platform_processor = Inl (PyExc OSError ''no uname''),
       cpu_freq = Inl (PyExc OtherError ''no cpu''),
       cpu_count_physical = Inl (PyExc OtherError ''no cpu''),
       cpu_count_logical = Inl (PyExc OtherError ''no cpu''),
       cpu_percent_percpu = Inl (PyExc OtherError ''no cpu''),
       cpu_percent_total = Inl (PyExc OtherError ''no cpu''),
       virtual_memory = Inl (PyExc OSError ''no meminfo''),
       disk_partitions = Inl (PyExc OSError ''no mounts''),
       disk_usage = (\<lambda>m. Inl (PyExc OSError ''denied'')),
       HAS_GPU = False,
       getGPUs = Inl (PyExc OtherError ''no driver''),
       now_isoformat = ''2025-01-01T00:00:00'' \<rparr>"

text \<open>A host with 16 GiB of memory, two partitions of which the second cannot be read, and
  \<open>GPUtil\<close> installed without any device.\<close>

definition sample_env :: env where
  "sample_env =
     \<lparr> platform_system = Inr ''Linux'',
       platform_node = Inr ''host'',
       platform_release = Inr ''6.1'',
       platform_version = Inr ''#1 SMP'',
       platform_machine = Inr ''x86_64'',
       platform_processor = Inr '''',
       cpu_freq = Inr None,
       cpu_count_physical = Inr (Some 4),
       cpu_count_logical = Inr (Some 8),
       cpu_percent_percpu = Inr [Finite 1, Finite 0],
       cpu_percent_total = Inr (Finite (1 / 2)),
       virtual_memory =
         Inr \<lparr> vm_total = 17179869184, vm_available = 16658157568, vm_used = 521711616,
               vm_percent = Finite 3 \<rparr>,
       disk_partitions =
         Inr [\<lparr> device = ''/dev/sda1'', mountpoint = ''/'', fstype = ''ext4'' \<rparr>,
              \<lparr> device = ''/dev/sr0'', mountpoint = ''/media'', fstype = ''iso9660'' \<rparr>],
       disk_usage =
         (\<lambda>m. if m = ''/''
              then Inr \<lparr> du_total = 1073741824, du_used = 536870912, du_free = 536870912,
                         du_percent = Finite 50 \<rparr>
              else Inl (PyExc OSError ''denied'')),
       HAS_GPU = True,
       getGPUs = Inr [],
       now_isoformat = ''2025-01-01T00:00:00'' \<rparr>"


definition io_ok :: io_env where
  "io_ok =
     \<lparr> open_error = (\<lambda>filename. None), write_error = (\<lambda>filename n. None),
       close_error = (\<lambda>filename. None), flushed = (\<lambda>filename. 0),
       print_error = (\<lambda>s. None) \<rparr>"


definition io_full :: io_env where
  "io_full =
     \<lparr> open_error = (\<lambda>filename. None), write_error = (\<lambda>filename n. None),
       close_error = (\<lambda>filename. Some (PyExc OSError ''No space left on device'')),
       flushed = (\<lambda>filename. 0),
       print_error = (\<lambda>s. None) \<rparr>"

section \<open>Properties of flattening\<close>

lemma foldl_setitem_fresh:
  "distinct (map fst (acc @ its)) \<Longrightarrow>
   foldl (\<lambda>d (k, v). dict_setitem d k v) acc its = acc @ its"
proof (induction its arbitrary: acc)
  case Nil
  then show ?case by simp
next
  case (Cons kv its)
  obtain k v where kv: "kv = (k, v)" by (cases kv)
  have fresh: "k \<notin> fst ` set acc" using Cons.prems kv by auto
  have app: "dict_setitem acc k v = acc @ [(k, v)]"
    using fresh by (induction acc) auto
  have "distinct (map fst ((acc @ [(k, v)]) @ its))" using Cons.prems kv by simp
  from Cons.IH [OF this] show ?case using kv app by simp
qed

lemma py_dict_distinct: "distinct (map fst its) \<Longrightarrow> py_dict its = its"
  unfolding py_dict_def using foldl_setitem_fresh [of "[]" its] by simp

lemma flatten_items_flat:
  "\<forall>(k, v) \<in> set d. is_scalar v \<Longrightarrow> flatten_items d [] sep = d"
proof (induction d)
  case Nil
  then show ?case by simp
next
  case (Cons kv d)
  obtain k v where kv: "kv = (k, v)" by (cases kv)
  have "is_scalar v" using Cons.prems kv by simp
  then have "flatten_items ((k, v) # d) [] sep = (k, v) # flatten_items d [] sep"
    by (cases v) (simp_all add: new_key_def)
  then show ?case using Cons kv by simp
qed


lemma flatten_items_concat:
  "flatten_items d p sep =
     concat (map (\<lambda>(k, v). case v of
                     VDict c \<Rightarrow> flatten_dict c (new_key p sep k) sep
                   | VList xs \<Rightarrow> flatten_enumerate xs 0 (new_key p sep k) sep
                   | _ \<Rightarrow> [(new_key p sep k, v)]) d)"
  by (induction d) auto

lemma dict_setitem_keys: "set (map fst (dict_setitem d k v)) = insert k (set (map fst d))"
proof (induction d)
  case Nil
  then show ?case by simp
next
  case (Cons p d)
  obtain k' v' where p: "p = (k', v')" by (cases p)
  show ?case
  proof (cases "k' = k")
    case True
    then show ?thesis by (simp add: p)
  next
    case False
    then show ?thesis using Cons.IH by (simp add: p insert_commute)
  qed
qed

lemma foldl_setitem_keys:
  "set (map fst (foldl (\<lambda>d (k, v). dict_setitem d k v) acc its))
     = set (map fst acc) \<union> set (map fst its)"
proof (induction its arbitrary: acc)
  case Nil
  then show ?case by simp
next
  case (Cons kv its)
  obtain k v where kv: "kv = (k, v)" by (cases kv)
  have "set (map fst (foldl (\<lambda>d (k, v). dict_setitem d k v) (dict_setitem acc k v) its))
      = insert k (set (map fst acc)) \<union> set (map fst its)"
    using Cons.IH [of "dict_setitem acc k v"] by (simp only: dict_setitem_keys)
  then show ?case unfolding kv by simp
qed

lemma py_dict_keys: "fst ` set (py_dict its) = fst ` set its"
  using foldl_setitem_keys [of "[]" its] by (simp add: py_dict_def)

lemma flatten_paths:
  "p \<noteq> [] \<longrightarrow> (\<forall>path \<in> fst ` set (flatten_dict d p sep). \<exists>ck \<in> fst ` set d. prefix (p @ sep @ ck) path)"
  "p \<noteq> [] \<longrightarrow> (\<forall>path \<in> fst ` set (flatten_items d p sep). \<exists>ck \<in> fst ` set d. prefix (p @ sep @ ck) path)"
  "\<forall>path \<in> fst ` set (flatten_enumerate xs i nk sep). prefix nk path"
proof (induction d p sep and d p sep and xs i nk sep rule: flatten_dict_flatten_items_flatten_enumerate.induct)
  case (1 d parent_key sep)
  then show ?case by (simp only: flatten_dict.simps py_dict_keys)
next
  case (2 parent_key sep)
  then show ?case by simp
next
  case (3 k v rest parent_key sep)
  show ?case
  proof (intro impI ballI)
    fix path assume ne: "parent_key \<noteq> []" and "path \<in> fst ` set (flatten_items ((k, v) # rest) parent_key sep)"
    then consider (hd) "path \<in> fst ` set (case v of
        VDict c \<Rightarrow> flatten_dict c (new_key parent_key sep k) sep
      | VList xs \<Rightarrow> flatten_enumerate xs 0 (new_key parent_key sep k) sep
      | _ \<Rightarrow> [(new_key parent_key sep k, v)])" | (tl) "path \<in> fst ` set (flatten_items rest parent_key sep)"
      by auto
    then show "\<exists>ck\<in>fst ` set ((k, v) # rest). prefix (parent_key @ sep @ ck) path"
    proof cases
      case hd
      have nk: "new_key parent_key sep k = parent_key @ sep @ k" "new_key parent_key sep k \<noteq> []"
        using ne by (simp_all add: new_key_def)
      have "prefix (parent_key @ sep @ k) path"
      proof (cases v)
        case (VDict c)
        with hd 3(1) [OF VDict] nk obtain ck where "prefix ((parent_key @ sep @ k) @ sep @ ck) path"
          by auto
        then show ?thesis by (metis append_prefixD)
      next
        case (VList xs)
        with hd 3(2) [OF VList] nk show ?thesis by auto
      qed (use hd nk in auto)
      then show ?thesis by auto
    next
      case tl
      with 3(3) ne show ?thesis by auto
    qed
  qed
next
  case (4 i nk sep)
  then show ?case by simp
next
  case (5 item xs i nk sep)
  show ?case
  proof
    fix path assume "path \<in> fst ` set (flatten_enumerate (item # xs) i nk sep)"
    then consider (hd) "path \<in> fst ` set (case item of
        VDict c \<Rightarrow> flatten_dict c (index_key nk i) sep
      | _ \<Rightarrow> [(index_key nk i, item)])" | (tl) "path \<in> fst ` set (flatten_enumerate xs (Suc i) nk sep)"
      by auto
    then show "prefix nk path"
    proof cases
      case hd
      have ik: "index_key nk i \<noteq> []" "prefix nk (index_key nk i)" by (simp_all add: index_key_def)
      show ?thesis
      proof (cases item)
        case (VDict c)
        with hd 5(1) [OF VDict] ik(1) obtain ck where "prefix (index_key nk i @ sep @ ck) path"
          by auto
        then show ?thesis using ik(2) by (metis append_prefixD prefix_order.trans)
      qed (use hd ik in auto)
    next
      case tl
      with 5(2) show ?thesis by auto
    qed
  qed
qed

text \<open>
  C1 (amended).  An entry whose value is a mapping is flattened by the recursive call on that
  mapping, with the path \<open>parent: key\<close> when the parent path is not empty and with the key
  alone when it is (a top-level key is its own path).  A mapping flattened under a non-empty
  path \<open>p\<close> places each of its children \<open>ck\<close> under \<open>p: ck\<close>, so every path of the
  result starts with \<open>p\<close>, the separator and a child key.  In particular
  \<open>{"A": {"B": 1, "C": 2}}\<close> gives \<open>{"A: B": 1, "A: C": 2}\<close>.
\<close>

theorem flatten_dict_nested_mapping:
  "flatten_items ((k, VDict c) # rest) parent_key sep
     = flatten_dict c (if parent_key = [] then k else parent_key @ sep @ k) sep
       @ flatten_items rest parent_key sep
   \<and> (p \<noteq> [] \<longrightarrow>
        flatten_dict c p sep
          = py_dict (concat (map (\<lambda>(ck, v). case v of
                                   VDict c' \<Rightarrow> flatten_dict c' (p @ sep @ ck) sep
                                 | VList xs \<Rightarrow> flatten_enumerate xs 0 (p @ sep @ ck) sep
                                 | _ \<Rightarrow> [(p @ sep @ ck, v)]) c)))
   \<and> (p \<noteq> [] \<longrightarrow>
        (\<forall>path \<in> fst ` set (flatten_dict c p sep).
           \<exists>ck \<in> fst ` set c. prefix (p @ sep @ ck) path))
   \<and> flatten_dict [(''A'', VDict [(''B'', VInt 1), (''C'', VInt 2)])] [] '': ''
       = [(''A: B'', VInt 1), (''A: C'', VInt 2)]"
proof (intro conjI impI)
  show "flatten_items ((k, VDict c) # rest) parent_key sep
     = flatten_dict c (if parent_key = [] then k else parent_key @ sep @ k) sep
       @ flatten_items rest parent_key sep"
    by (simp add: new_key_def)
next
  assume "p \<noteq> []"
  then have nk: "new_key p sep = (\<lambda>ck. p @ sep @ ck)" by (auto simp: new_key_def)
  show "flatten_dict c p sep
          = py_dict (concat (map (\<lambda>(ck, v). case v of
                                   VDict c' \<Rightarrow> flatten_dict c' (p @ sep @ ck) sep
                                 | VList xs \<Rightarrow> flatten_enumerate xs 0 (p @ sep @ ck) sep
                                 | _ \<Rightarrow> [(p @ sep @ ck, v)]) c))"
    by (subst flatten_dict.simps, subst flatten_items_concat, simp only: nk)
next
  assume "p \<noteq> []"
  then show "\<forall>path \<in> fst ` set (flatten_dict c p sep).
           \<exists>ck \<in> fst ` set c. prefix (p @ sep @ ck) path"
    using flatten_paths(1) [of p c sep] by blast
next
  show "flatten_dict [(''A'', VDict [(''B'', VInt 1), (''C'', VInt 2)])] [] '': ''
       = [(''A: B'', VInt 1), (''A: C'', VInt 2)]"
    by (simp add: py_dict_def new_key_def)
qed

theorem flatten_dict_nested_mapping_witness:
  "''A'' \<noteq> []
   \<and> flatten_dict [(''B'', VInt 1), (''C'', VInt 2)] ''A'' '': ''
       = py_dict [(''A'' @ '': '' @ ''B'', VInt 1), (''A'' @ '': '' @ ''C'', VInt 2)]
   \<and> (\<exists>ck \<in> fst ` set [(''B'', VInt 1), (''C'', VInt 2)]. prefix (''A'' @ '': '' @ ck) ''A: C'')"
proof -
  have ne: "''A'' \<noteq> []" by simp
  have mem: "''A: C'' \<in> fst ` set (flatten_dict [(''B'', VInt 1), (''C'', VInt 2)] ''A'' '': '')"
    by (simp add: py_dict_def new_key_def)
  note t = flatten_dict_nested_mapping
    [of "''x''" "[(''B'', VInt 1), (''C'', VInt 2)]" "[]" "[]" "'': ''" "''A''"]
  from t ne have "flatten_dict [(''B'', VInt 1), (''C'', VInt 2)] ''A'' '': ''
       = py_dict [(''A'' @ '': '' @ ''B'', VInt 1), (''A'' @ '': '' @ ''C'', VInt 2)]"
    by simp
  moreover from t ne mem
  have "\<exists>ck \<in> fst ` set [(''B'', VInt 1), (''C'', VInt 2)]. prefix (''A'' @ '': '' @ ck) ''A: C''"
    by blast
  ultimately show ?thesis using ne by blast
qed

text \<open>
  The claim as stated fails for a mapping stored under the empty key at the top level: its
  path is empty, so its children are flattened as top-level keys, without the separator.
  \<open>{"": {"B": 1}}\<close> gives \<open>{"B": 1}\<close>, not \<open>{": B": 1}\<close>.
\<close>

theorem flatten_dict_empty_key_counterexample:
  "flatten_dict [('''', VDict [(''B'', VInt 1)])] '''' '': '' = [(''B'', VInt 1)]
   \<and> flatten_dict [('''', VDict [(''B'', VInt 1)])] '''' '': ''
       \<noteq> [('''' @ '': '' @ ''B'', VInt 1)]"
  by (simp add: py_dict_def new_key_def)


text \<open>
  C3.  A dictionary whose values are all scalars (no nested dictionary, no list) is flattened
  to itself: the same pairs, in the same order, each under its original key.  The keys of a
  dictionary are distinct.
\<close>

theorem flatten_dict_flat_identity:
  assumes "distinct (map fst d)" and "\<forall>(k, v) \<in> set d. is_scalar v"
  shows "flatten_dict d [] sep = d"
  using assms by (simp add: flatten_items_flat py_dict_distinct)

theorem flatten_dict_flat_identity_witness:
  "distinct (map fst [(''Total (GB)'', VInt 8), (''Error'', VStr ''x'')])
   \<and> is_scalar (VInt 8) \<and> is_scalar (VStr ''x'')
   \<and> flatten_dict [(''Total (GB)'', VInt 8), (''Error'', VStr ''x'')] [] '': ''
       = [(''Total (GB)'', VInt 8), (''Error'', VStr ''x'')]"
proof -
  have d: "distinct (map fst [(''Total (GB)'', VInt 8), (''Error'', VStr ''x'')])" by simp
  have s: "\<forall>(k, v) \<in> set [(''Total (GB)'', VInt 8), (''Error'', VStr ''x'')]. is_scalar v"
    by simp
  show ?thesis using d flatten_dict_flat_identity [OF d s, of "'': ''"] by simp
qed

text \<open>
  C10.  The well-formed dictionary \<open>{"A": {"B": 1}, "A: B": 2}\<close> has two scalar leaves, and
  both are flattened to the path \<open>A: B\<close>: the result holds one pair, with the value of the
  later leaf.
\<close>

theorem flatten_dict_path_collision:
  "wf_dict [(''A'', VDict [(''B'', VInt 1)]), (''A: B'', VInt 2)]
   \<and> leaves_dict [(''A'', VDict [(''B'', VInt 1)]), (''A: B'', VInt 2)] = 2
   \<and> flatten_items [(''A'', VDict [(''B'', VInt 1)]), (''A: B'', VInt 2)] [] '': ''
       = [(''A: B'', VInt 1), (''A: B'', VInt 2)]
   \<and> flatten_dict [(''A'', VDict [(''B'', VInt 1)]), (''A: B'', VInt 2)] [] '': ''
       = [(''A: B'', VInt 2)]
   \<and> length (flatten_dict [(''A'', VDict [(''B'', VInt 1)]), (''A: B'', VInt 2)] [] '': '')
       < leaves_dict [(''A'', VDict [(''B'', VInt 1)]), (''A: B'', VInt 2)]"
  by (simp add: py_dict_def new_key_def)

section \<open>Properties of the float arithmetic\<close>

lemma round_half_even_of_int: "round_half_even (of_int m) = m"
  by (simp add: round_half_even_def)

lemma ilog2_bounds_pos:
  assumes "0 < x"
  shows "2 powi (ilog2 x) \<le> x \<and> x < 2 powi (ilog2 x + 1)"
proof (cases "1 \<le> x")
  case True
  define m where "m = \<lfloor>x\<rfloor>"
  have m: "0 < m" using True by (simp add: m_def)
  have b1: "1 \<le> bitlen m" using m by (simp add: bitlen_alt_def)
  from bitlen_bounds [OF m] have lo: "2 ^ nat (bitlen m - 1) \<le> m" and hi: "m < 2 ^ nat (bitlen m)"
    by auto
  have il: "ilog2 x = bitlen m - 1" using True assms by (simp add: ilog2_def m_def)
  have "(2::rat) powi (bitlen m - 1) = 2 ^ nat (bitlen m - 1)"
    using b1 by (simp add: power_int_def)
  also have "\<dots> = of_int (2 ^ nat (bitlen m - 1))" by simp
  also have "\<dots> \<le> of_int m" using lo by (simp only: of_int_le_iff)
  also have "\<dots> \<le> x" by (simp add: m_def)
  finally have A: "2 powi (ilog2 x) \<le> x" by (simp add: il)
  have "m + 1 \<le> 2 ^ nat (bitlen m)" using hi by simp
  then have "(of_int (m + 1) :: rat) \<le> of_int (2 ^ nat (bitlen m))" by (simp only: of_int_le_iff)
  moreover have "x < of_int (m + 1)" unfolding m_def by linarith
  ultimately have "x < 2 ^ nat (bitlen m)" by simp
  moreover have "(2::rat) powi (bitlen m - 1 + 1) = 2 ^ nat (bitlen m)"
    using b1 by (simp add: power_int_def)
  ultimately have B: "x < 2 powi (ilog2 x + 1)" by (simp add: il)
  from A B show ?thesis ..
next
  case False
  then have x1: "x < 1" by simp
  define y where "y = 1 / x"
  have y1: "1 < y" using assms x1 by (simp add: y_def)
  define m where "m = \<lceil>y\<rceil> - 1"
  have m: "0 < m" using y1 unfolding m_def by linarith
  have b1: "1 \<le> bitlen m" using m by (simp add: bitlen_alt_def)
  from bitlen_bounds [OF m] have lo: "2 ^ nat (bitlen m - 1) \<le> m" and hi: "m < 2 ^ nat (bitlen m)"
    by auto
  have il: "ilog2 x = - bitlen m" using False assms by (simp add: ilog2_def m_def y_def)
  have my: "of_int m < y" unfolding m_def by linarith
  have ym: "y \<le> of_int (m + 1)" unfolding m_def by simp
  have "m + 1 \<le> 2 ^ nat (bitlen m)" using hi by simp
  then have "(of_int (m + 1) :: rat) \<le> of_int (2 ^ nat (bitlen m))" by (simp only: of_int_le_iff)
  with ym have yhi: "y \<le> 2 ^ nat (bitlen m)" by simp
  have "(of_int (2 ^ nat (bitlen m - 1)) :: rat) \<le> of_int m" using lo by (simp only: of_int_le_iff)
  then have "(2::rat) ^ nat (bitlen m - 1) \<le> of_int m" by simp
  with my have ylo: "2 ^ nat (bitlen m - 1) < y" by linarith
  have xy: "x = 1 / y" using assms by (simp add: y_def)
  have ypos: "0 < y" using y1 by simp
  have A: "2 powi (- bitlen m) \<le> x"
  proof -
    have "(2::rat) powi (- bitlen m) = 1 / 2 ^ nat (bitlen m)"
      using b1 by (simp add: power_int_def inverse_eq_divide power_one_over)
    also have "\<dots> \<le> 1 / y" using yhi ypos by (simp add: frac_le)
    finally show ?thesis by (simp add: xy)
  qed
  have B: "x < 2 powi (- bitlen m + 1)"
  proof -
    have "1 / y < 1 / 2 ^ nat (bitlen m - 1)" using ylo by (simp add: frac_less2)
    also have "\<dots> = (2::rat) powi (- bitlen m + 1)"
    proof (cases "bitlen m = 1")
      case True
      then show ?thesis by simp
    next
      case False
      with b1 have "1 < bitlen m" by simp
      then have *: "- bitlen m + 1 < 0" "nat (- (- bitlen m + 1)) = nat (bitlen m - 1)" by simp_all
      show ?thesis unfolding power_int_def using * by (simp add: inverse_eq_divide power_one_over)
    qed
    finally show ?thesis by (simp add: xy)
  qed
  from A B show ?thesis by (simp add: il)
qed

lemma ilog2_abs: "ilog2 (- x) = ilog2 x" "ilog2 \<bar>x\<bar> = ilog2 x"
  by (simp_all add: ilog2_def)

lemma ilog2_bounds:
  assumes "x \<noteq> 0"
  shows "2 powi (ilog2 x) \<le> \<bar>x\<bar>" and "\<bar>x\<bar> < 2 powi (ilog2 x + 1)"
  using ilog2_bounds_pos [of "\<bar>x\<bar>"] assms by (simp_all add: ilog2_abs)


lemma round_half_even_close: "\<bar>of_int (round_half_even z) - z\<bar> \<le> 1 / 2"
proof -
  define d where "d = z - of_int \<lfloor>z\<rfloor>"
  have d: "0 \<le> d" "d < 1" unfolding d_def by linarith+
  have z: "z = of_int \<lfloor>z\<rfloor> + d" by (simp add: d_def)
  consider "d < 1 / 2" | "1 / 2 < d" | "d = 1 / 2" by linarith
  then show ?thesis
  proof cases
    case 1
    then have "round_half_even z = \<lfloor>z\<rfloor>" by (simp add: round_half_even_def d_def)
    then show ?thesis using d 1 unfolding d_def by simp
  next
    case 2
    then have "round_half_even z = \<lfloor>z\<rfloor> + 1" by (simp add: round_half_even_def d_def)
    then show ?thesis using d 2 unfolding d_def by simp
  next
    case 3
    then have "round_half_even z = \<lfloor>z\<rfloor> \<or> round_half_even z = \<lfloor>z\<rfloor> + 1"
      by (simp add: round_half_even_def d_def Let_def)
    then show ?thesis using d 3 unfolding d_def by auto
  qed
qed

lemma power_int_less_exp2:
  assumes "(2::rat) powi a < 2 powi b"
  shows "a < b"
proof (rule ccontr)
  assume "\<not> a < b"
  then have "b \<le> a" by simp
  then have "(2::rat) powi b \<le> 2 powi a" by (intro power_int_increasing) simp_all
  with assms show False by simp
qed

lemma to_double_exact:
  assumes x: "x = of_int m * 2 powi k" and m: "\<bar>m\<bar> < 2 ^ 53" and k: "- 1074 \<le> k"
    and r: "\<bar>x\<bar> < 2 ^ 1024"
  shows "to_double x = Finite x"
proof (cases "x = 0")
  case True
  then show ?thesis by (simp add: to_double_def)
next
  case False
  define e where "e = max (ilog2 x - 52) (- 1074)"
  have "2 powi (ilog2 x) \<le> \<bar>x\<bar>" using ilog2_bounds(1) [OF False] .
  also have "\<bar>x\<bar> = of_int \<bar>m\<bar> * 2 powi k" by (simp add: x abs_mult)
  also have "\<dots> < 2 ^ 53 * 2 powi k"
  proof -
    have "(of_int \<bar>m\<bar> :: rat) < of_int (2 ^ 53)" using m by (simp only: of_int_less_iff)
    then have "(of_int \<bar>m\<bar> :: rat) < 2 ^ 53" by simp
    then show ?thesis by (intro mult_strict_right_mono) simp_all
  qed
  also have "\<dots> = 2 powi (53 + k)" by (simp add: power_int_add)
  finally have "ilog2 x < 53 + k" by (rule power_int_less_exp2)
  then have ek: "e \<le> k" using k by (simp add: e_def)
  have "x / 2 powi e = of_int m * 2 powi (k - e)" by (simp add: x power_int_diff)
  also have "(2::rat) powi (k - e) = of_int (2 ^ nat (k - e))" using ek by (simp add: power_int_def)
  finally have "x / 2 powi e = of_int (m * 2 ^ nat (k - e))" by simp
  then have "round_half_even (x / 2 powi e) = m * 2 ^ nat (k - e)"
    by (simp only: round_half_even_of_int)
  then have "(of_int (round_half_even (x / 2 powi e)) :: rat) * 2 powi e
      = of_int m * (of_int (2 ^ nat (k - e)) * 2 powi e)" by simp
  also have "(of_int (2 ^ nat (k - e)) :: rat) = 2 powi (k - e)" using ek by (simp add: power_int_def)
  also have "(2::rat) powi (k - e) * 2 powi e = 2 powi k" by (simp flip: power_int_add)
  finally have y: "of_int (round_half_even (x / 2 powi e)) * 2 powi e = x" by (simp add: x)
  show ?thesis using False r unfolding to_double_def Let_def e_def [symmetric] y by simp
qed

lemma to_double_finite:
  assumes "\<bar>x\<bar> < 2 ^ 1023"
  shows "to_double x = Finite (of_int (round_half_even (x / 2 powi (max (ilog2 x - 52) (- 1074))))
            * 2 powi (max (ilog2 x - 52) (- 1074)))"
proof (cases "x = 0")
  case True
  then show ?thesis by (simp add: to_double_def round_half_even_def)
next
  case False
  define e where "e = max (ilog2 x - 52) (- 1074)"
  define y :: rat where "y = of_int (round_half_even (x / 2 powi e)) * 2 powi e"
  have pe: "(0::rat) < 2 powi e" by simp
  have "2 powi (ilog2 x) \<le> \<bar>x\<bar>" using ilog2_bounds(1) [OF False] .
  with assms have "(2::rat) powi (ilog2 x) < 2 powi 1023" by simp
  then have "ilog2 x < 1023" by (rule power_int_less_exp2)
  then have "e \<le> 971" by (simp add: e_def)
  then have e971: "(2::rat) powi e \<le> 2 powi 971" by (intro power_int_increasing) simp_all
  have "\<bar>y - x\<bar> = \<bar>of_int (round_half_even (x / 2 powi e)) - x / 2 powi e\<bar> * 2 powi e"
  proof -
    have "y - x = (of_int (round_half_even (x / 2 powi e)) - x / 2 powi e) * 2 powi e"
      using pe by (simp add: y_def left_diff_distrib)
    then show ?thesis using pe by (simp only: abs_mult abs_of_pos)
  qed
  also have "\<dots> \<le> 1 / 2 * 2 powi e"
    using pe by (intro mult_right_mono round_half_even_close) simp
  also have "\<dots> \<le> 1 / 2 * 2 powi 971" using e971 by simp
  finally have "\<bar>y - x\<bar> \<le> 2 ^ 970" by simp
  then have "\<bar>y\<bar> \<le> \<bar>x\<bar> + 2 ^ 970" by linarith
  with assms have "\<bar>y\<bar> < 2 ^ 1023 + 2 ^ 970" by linarith
  also have "\<dots> < (2::rat) ^ 1024" by simp
  finally have "\<not> 2 ^ 1024 \<le> \<bar>y\<bar>" by simp
  then show ?thesis using False unfolding to_double_def Let_def e_def [symmetric] y_def [symmetric]
    by simp
qed


section \<open>Properties of the collector\<close>

lemma disk_loop_map: "disk_loop e ps disk_data = disk_data @ map (disk_entry e) ps"
  by (induction ps arbitrary: disk_data) simp_all

lemma disk_entry_local:
  "disk_usage e (mountpoint p) = disk_usage e' (mountpoint p) \<Longrightarrow> disk_entry e p = disk_entry e' p"
  by (simp add: disk_entry_def)

text \<open>
  C5.  Without \<open>GPUtil\<close> the GPU getter returns the one-element list
  \<open>[{"Info": "GPUtil package not installed"}]\<close>; with it and no device,
  \<open>[{"Info": "No GPUs detected"}]\<close>; when the query raises, or building a device record
  raises, \<open>[{"Error": "Failed to get GPU info: <cause>"}]\<close>.
\<close>

theorem get_gpu_info_sentinels:
  "(\<not> HAS_GPU e \<longrightarrow>
      get_gpu_info e = Inr [VDict [(''Info'', VStr ''GPUtil package not installed'')]])
   \<and> (HAS_GPU e \<and> getGPUs e = Inr [] \<longrightarrow>
      get_gpu_info e = Inr [VDict [(''Info'', VStr ''No GPUs detected'')]])
   \<and> (HAS_GPU e \<and> getGPUs e = Inl ex \<longrightarrow>
      get_gpu_info e = Inr [VDict [(''Error'', VStr (''Failed to get GPU info: '' @ exc_str ex))]])
   \<and> (HAS_GPU e \<and> getGPUs e = Inr gpus \<and> gpu_loop gpus [] = Inl ex \<longrightarrow>
      get_gpu_info e = Inr [VDict [(''Error'', VStr (''Failed to get GPU info: '' @ exc_str ex))]])"
  by (simp add: get_gpu_info_def bind_exc_def try_except_def)

theorem get_gpu_info_sentinels_witness:
  "get_gpu_info failing_env = Inr [VDict [(''Info'', VStr ''GPUtil package not installed'')]]
   \<and> get_gpu_info sample_env = Inr [VDict [(''Info'', VStr ''No GPUs detected'')]]
   \<and> get_gpu_info (sample_env \<lparr> getGPUs := Inl (PyExc OSError ''nvidia-smi failed'') \<rparr>)
       = Inr [VDict [(''Error'', VStr ''Failed to get GPU info: nvidia-smi failed'')]]"
  using get_gpu_info_sentinels [of failing_env]
    get_gpu_info_sentinels [of sample_env]
    get_gpu_info_sentinels
      [of "sample_env \<lparr> getGPUs := Inl (PyExc OSError ''nvidia-smi failed'') \<rparr>"
          "PyExc OSError ''nvidia-smi failed''"]
  by (simp add: failing_env_def sample_env_def)

text \<open>
  C6.  When the enumeration of the partitions raises, the disk getter returns the single
  record \<open>{"Error": "Failed to get disk info: <cause>"}\<close>.  Otherwise it returns one record
  per partition, in order; the record of a partition whose usage cannot be read is
  \<open>{"Device": <path>, "Error": "Failed to read partition: <cause>"}\<close>; and the record of
  a partition depends only on the usage query of its own mount point, so two hosts with the
  same partitions give the same record for every partition on whose usage they agree.
\<close>

theorem get_disk_info_isolation:
  "(disk_partitions e = Inl ex \<longrightarrow>
      get_disk_info e = Inr [VDict [(''Error'', VStr (''Failed to get disk info: '' @ exc_str ex))]])
   \<and> (disk_partitions e = Inr ps \<longrightarrow> get_disk_info e = Inr (map (disk_entry e) ps))
   \<and> (disk_usage e (mountpoint p) = Inl ex \<longrightarrow>
        disk_entry e p =
          VDict [(''Device'', VStr (device p)),
                 (''Error'', VStr (''Failed to read partition: '' @ exc_str ex))])
   \<and> (disk_partitions e = Inr ps \<and> disk_partitions e' = Inr ps \<and> j < length ps
        \<and> disk_usage e (mountpoint (ps ! j)) = disk_usage e' (mountpoint (ps ! j)) \<longrightarrow>
        (\<exists>xs ys. get_disk_info e = Inr xs \<and> get_disk_info e' = Inr ys
           \<and> length xs = length ps \<and> length ys = length ps \<and> xs ! j = ys ! j))"
proof (intro conjI impI)
  assume "disk_partitions e = Inl ex"
  then show "get_disk_info e
      = Inr [VDict [(''Error'', VStr (''Failed to get disk info: '' @ exc_str ex))]]"
    by (simp add: get_disk_info_def)
next
  assume "disk_partitions e = Inr ps"
  then show "get_disk_info e = Inr (map (disk_entry e) ps)"
    by (simp add: get_disk_info_def disk_loop_map)
next
  assume "disk_usage e (mountpoint p) = Inl ex"
  then show "disk_entry e p =
          VDict [(''Device'', VStr (device p)),
                 (''Error'', VStr (''Failed to read partition: '' @ exc_str ex))]"
    by (simp add: disk_entry_def bind_exc_def)
next
  assume a: "disk_partitions e = Inr ps \<and> disk_partitions e' = Inr ps \<and> j < length ps
        \<and> disk_usage e (mountpoint (ps ! j)) = disk_usage e' (mountpoint (ps ! j))"
  then have same: "disk_entry e (ps ! j) = disk_entry e' (ps ! j)" by (rule_tac disk_entry_local) simp
  from a have j: "j < length ps" by simp
  from a have 1: "get_disk_info e = Inr (map (disk_entry e) ps)"
    by (simp add: get_disk_info_def disk_loop_map)
  from a have 2: "get_disk_info e' = Inr (map (disk_entry e') ps)"
    by (simp add: get_disk_info_def disk_loop_map)
  have 3: "map (disk_entry e) ps ! j = map (disk_entry e') ps ! j" using j same by simp
  show "\<exists>xs ys. get_disk_info e = Inr xs \<and> get_disk_info e' = Inr ys
           \<and> length xs = length ps \<and> length ys = length ps \<and> xs ! j = ys ! j"
    using 1 2 3 by (intro exI [of _ "map (disk_entry e) ps"] exI [of _ "map (disk_entry e') ps"]) simp
qed

theorem get_disk_info_isolation_witness:
  "get_disk_info failing_env
     = Inr [VDict [(''Error'', VStr ''Failed to get disk info: no mounts'')]]
   \<and> get_disk_info sample_env
     = Inr [disk_entry sample_env \<lparr> device = ''/dev/sda1'', mountpoint = ''/'', fstype = ''ext4'' \<rparr>,
            VDict [(''Device'', VStr ''/dev/sr0''),
                   (''Error'', VStr ''Failed to read partition: denied'')]]
   \<and> (\<exists>xs ys. get_disk_info sample_env = Inr xs
         \<and> get_disk_info (sample_env \<lparr> disk_usage := (\<lambda>m. Inl (PyExc OSError ''denied'')) \<rparr>) = Inr ys
         \<and> length xs = 2 \<and> length ys = 2 \<and> xs ! 1 = ys ! 1)"
proof -
  let ?p1 = "\<lparr> device = ''/dev/sda1'', mountpoint = ''/'', fstype = ''ext4'' \<rparr>"
  let ?p2 = "\<lparr> device = ''/dev/sr0'', mountpoint = ''/media'', fstype = ''iso9660'' \<rparr>"
  let ?e' = "sample_env \<lparr> disk_usage := (\<lambda>m. Inl (PyExc OSError ''denied'')) \<rparr>"
  have dpf: "disk_partitions failing_env = Inl (PyExc OSError ''no mounts'')"
    by (simp add: failing_env_def)
  have dp: "disk_partitions sample_env = Inr [?p1, ?p2]" by (simp add: sample_env_def)
  have dp': "disk_partitions ?e' = Inr [?p1, ?p2]" by (simp add: sample_env_def)
  have du: "disk_usage sample_env ''/media'' = Inl (PyExc OSError ''denied'')"
    by (simp add: sample_env_def)
  have du': "disk_usage ?e' ''/media'' = Inl (PyExc OSError ''denied'')" by simp
  note f = get_disk_info_isolation
    [where e = failing_env and ex = "PyExc OSError ''no mounts''" and ps = "[]" and p = ?p2
       and e' = failing_env and j = 0]
  note t = get_disk_info_isolation
    [where e = sample_env and ex = "PyExc OSError ''denied''" and ps = "[?p1, ?p2]" and p = ?p2
       and e' = ?e' and j = 1]
  have a: "get_disk_info failing_env
     = Inr [VDict [(''Error'', VStr ''Failed to get disk info: no mounts'')]]"
    using f dpf by simp
  have b: "get_disk_info sample_env = Inr [disk_entry sample_env ?p1, disk_entry sample_env ?p2]"
    using t dp by simp
  have c: "disk_entry sample_env ?p2
     = VDict [(''Device'', VStr ''/dev/sr0''), (''Error'', VStr ''Failed to read partition: denied'')]"
    using t du by simp
  have d: "\<exists>xs ys. get_disk_info sample_env = Inr xs \<and> get_disk_info ?e' = Inr ys
         \<and> length xs = length [?p1, ?p2] \<and> length ys = length [?p1, ?p2] \<and> xs ! 1 = ys ! 1"
    using t dp dp' du du' by auto
  from a b c d show ?thesis by (auto simp: numeral_2_eq_2)
qed

text \<open>
  C7.  No getter raises: each returns a value in every environment, and
  \<open>collect_all_info\<close> returns the dictionary of the seven keys \<open>Timestamp\<close>, \<open>Version\<close>,
  \<open>OS Info\<close>, \<open>CPU Info\<close>, \<open>Memory Info\<close>, \<open>Disk Info\<close> and \<open>GPU Info\<close>, in this order,
  holding the clock's timestamp, the version and what the five getters returned.  When a
  query behind a getter raises, the getter returns its error marker: the record
  \<open>{"Error": "Failed to get ... info: <cause>"}\<close> for the OS, CPU and memory getters (for
  the memory getter also when a conversion raises), the one-element list with that record
  for the disk getter when the enumeration raises and for the GPU getter when the query or
  the building of a device record raises, and the record
  \<open>{"Device": <path>, "Error": "Failed to read partition: <cause>"}\<close> at the place of each
  partition whose usage cannot be read.  Without \<open>GPUtil\<close> the GPU getter returns its
  sentinel.
\<close>

theorem getters_total:
  "(\<exists>v. get_os_info e = Inr v) \<and> (\<exists>v. get_cpu_info e = Inr v)
   \<and> (\<exists>v. get_memory_info e = Inr v) \<and> (\<exists>v. get_disk_info e = Inr v)
   \<and> (\<exists>v. get_gpu_info e = Inr v)
   \<and> (\<exists>d. collect_all_info e = Inr d
         \<and> map fst d = [''Timestamp'', ''Version'', ''OS Info'', ''CPU Info'', ''Memory Info'',
                        ''Disk Info'', ''GPU Info''])
   \<and> (platform_system e = Inl ex \<or> platform_node e = Inl ex \<or> platform_release e = Inl ex
        \<or> platform_version e = Inl ex \<or> platform_machine e = Inl ex
        \<or> platform_processor e = Inl ex \<longrightarrow>
        (\<exists>ex'. get_os_info e
           = Inr (VDict [(''Error'', VStr (''Failed to get OS info: '' @ exc_str ex'))])))
   \<and> (cpu_freq e = Inl ex \<or> cpu_count_physical e = Inl ex \<or> cpu_count_logical e = Inl ex
        \<or> cpu_percent_percpu e = Inl ex \<or> cpu_percent_total e = Inl ex \<longrightarrow>
        (\<exists>ex'. get_cpu_info e
           = Inr (VDict [(''Error'', VStr (''Failed to get CPU info: '' @ exc_str ex'))])))
   \<and> (virtual_memory e = Inl ex \<longrightarrow>
        get_memory_info e
           = Inr (VDict [(''Error'', VStr (''Failed to get memory info: '' @ exc_str ex))]))
   \<and> (virtual_memory e = Inr sv
        \<and> (gigabytes (vm_total sv) = Inl ex \<or> gigabytes (vm_available sv) = Inl ex
             \<or> gigabytes (vm_used sv) = Inl ex) \<longrightarrow>
        (\<exists>ex'. get_memory_info e
           = Inr (VDict [(''Error'', VStr (''Failed to get memory info: '' @ exc_str ex'))])))
   \<and> (disk_partitions e = Inl ex \<longrightarrow>
        get_disk_info e
           = Inr [VDict [(''Error'', VStr (''Failed to get disk info: '' @ exc_str ex))]])
   \<and> (disk_partitions e = Inr ps \<longrightarrow>
        (\<exists>entries. get_disk_info e = Inr entries \<and> length entries = length ps
           \<and> (\<forall>j < length ps. disk_usage e (mountpoint (ps ! j)) = Inl ex \<longrightarrow>
                 entries ! j =
                   VDict [(''Device'', VStr (device (ps ! j))),
                          (''Error'', VStr (''Failed to read partition: '' @ exc_str ex))])))
   \<and> (\<not> HAS_GPU e \<longrightarrow>
        get_gpu_info e = Inr [VDict [(''Info'', VStr ''GPUtil package not installed'')]])
   \<and> (HAS_GPU e \<and> (getGPUs e = Inl ex \<or> (getGPUs e = Inr gpus \<and> gpu_loop gpus [] = Inl ex)) \<longrightarrow>
        get_gpu_info e
           = Inr [VDict [(''Error'', VStr (''Failed to get GPU info: '' @ exc_str ex))]])
   \<and> (\<exists>os_info cpu_info mem_info disk_info gpu_info.
         get_os_info e = Inr os_info \<and> get_cpu_info e = Inr cpu_info
         \<and> get_memory_info e = Inr mem_info \<and> get_disk_info e = Inr disk_info
         \<and> get_gpu_info e = Inr gpu_info
         \<and> collect_all_info e
             = Inr [(''Timestamp'', VStr (now_isoformat e)), (''Version'', VStr ''1.0.0''),
                    (''OS Info'', os_info), (''CPU Info'', cpu_info),
                    (''Memory Info'', mem_info), (''Disk Info'', VList disk_info),
                    (''GPU Info'', VList gpu_info)])"
proof -
  have os: "\<exists>v. get_os_info e = Inr v"
    by (simp add: get_os_info_def try_except_def split: sum.splits)
  have cpu: "\<exists>v. get_cpu_info e = Inr v"
    by (simp add: get_cpu_info_def try_except_def split: sum.splits)
  have mem: "\<exists>v. get_memory_info e = Inr v"
    by (simp add: get_memory_info_def try_except_def split: sum.splits)
  have disk: "\<exists>v. get_disk_info e = Inr v"
    by (simp add: get_disk_info_def split: sum.splits)
  have gpu: "\<exists>v. get_gpu_info e = Inr v"
    by (simp add: get_gpu_info_def try_except_def split: sum.splits)
  have coll: "\<exists>os_info cpu_info mem_info disk_info gpu_info.
         get_os_info e = Inr os_info \<and> get_cpu_info e = Inr cpu_info
         \<and> get_memory_info e = Inr mem_info \<and> get_disk_info e = Inr disk_info
         \<and> get_gpu_info e = Inr gpu_info
         \<and> collect_all_info e
             = Inr [(''Timestamp'', VStr (now_isoformat e)), (''Version'', VStr ''1.0.0''),
                    (''OS Info'', os_info), (''CPU Info'', cpu_info),
                    (''Memory Info'', mem_info), (''Disk Info'', VList disk_info),
                    (''GPU Info'', VList gpu_info)]"
    using os cpu mem disk gpu by (auto simp: collect_all_info_def bind_exc_def version_def)
  then have all: "\<exists>d. collect_all_info e = Inr d
         \<and> map fst d = [''Timestamp'', ''Version'', ''OS Info'', ''CPU Info'', ''Memory Info'',
                        ''Disk Info'', ''GPU Info'']"
    by auto
  have os_err: "\<exists>ex'. get_os_info e
           = Inr (VDict [(''Error'', VStr (''Failed to get OS info: '' @ exc_str ex'))])"
    if "platform_system e = Inl ex \<or> platform_node e = Inl ex \<or> platform_release e = Inl ex
        \<or> platform_version e = Inl ex \<or> platform_machine e = Inl ex
        \<or> platform_processor e = Inl ex"
    using that by (auto simp: get_os_info_def try_except_def bind_exc_def split: sum.splits)
  have cpu_err: "\<exists>ex'. get_cpu_info e
           = Inr (VDict [(''Error'', VStr (''Failed to get CPU info: '' @ exc_str ex'))])"
    if "cpu_freq e = Inl ex \<or> cpu_count_physical e = Inl ex \<or> cpu_count_logical e = Inl ex
        \<or> cpu_percent_percpu e = Inl ex \<or> cpu_percent_total e = Inl ex"
    using that by (auto simp: get_cpu_info_def try_except_def bind_exc_def split: sum.splits)
  have mem_err: "get_memory_info e
           = Inr (VDict [(''Error'', VStr (''Failed to get memory info: '' @ exc_str ex))])"
    if "virtual_memory e = Inl ex"
    using that by (simp add: get_memory_info_def try_except_def bind_exc_def)
  have mem_err2: "\<exists>ex'. get_memory_info e
           = Inr (VDict [(''Error'', VStr (''Failed to get memory info: '' @ exc_str ex'))])"
    if "virtual_memory e = Inr sv
        \<and> (gigabytes (vm_total sv) = Inl ex \<or> gigabytes (vm_available sv) = Inl ex
             \<or> gigabytes (vm_used sv) = Inl ex)"
    using that by (auto simp: get_memory_info_def try_except_def bind_exc_def split: sum.splits)
  have disk_err: "get_disk_info e
           = Inr [VDict [(''Error'', VStr (''Failed to get disk info: '' @ exc_str ex))]]"
    if "disk_partitions e = Inl ex"
    using that by (simp add: get_disk_info_def)
  have part_err: "\<exists>entries. get_disk_info e = Inr entries \<and> length entries = length ps
           \<and> (\<forall>j < length ps. disk_usage e (mountpoint (ps ! j)) = Inl ex \<longrightarrow>
                 entries ! j =
                   VDict [(''Device'', VStr (device (ps ! j))),
                          (''Error'', VStr (''Failed to read partition: '' @ exc_str ex))])"
    if "disk_partitions e = Inr ps"
  proof (intro exI conjI allI impI)
    show "get_disk_info e = Inr (map (disk_entry e) ps)"
      using that by (simp add: get_disk_info_def disk_loop_map)
    show "length (map (disk_entry e) ps) = length ps" by simp
  next
    fix j assume "j < length ps" and "disk_usage e (mountpoint (ps ! j)) = Inl ex"
    then show "map (disk_entry e) ps ! j =
                   VDict [(''Device'', VStr (device (ps ! j))),
                          (''Error'', VStr (''Failed to read partition: '' @ exc_str ex))]"
      by (simp add: disk_entry_def bind_exc_def)
  qed
  have gpu_none: "get_gpu_info e = Inr [VDict [(''Info'', VStr ''GPUtil package not installed'')]]"
    if "\<not> HAS_GPU e"
    using that by (simp add: get_gpu_info_def)
  have gpu_err: "get_gpu_info e
           = Inr [VDict [(''Error'', VStr (''Failed to get GPU info: '' @ exc_str ex))]]"
    if "HAS_GPU e \<and> (getGPUs e = Inl ex \<or> (getGPUs e = Inr gpus \<and> gpu_loop gpus [] = Inl ex))"
    using that by (auto simp: get_gpu_info_def try_except_def bind_exc_def)
  show ?thesis
    using os cpu mem disk gpu all os_err cpu_err mem_err mem_err2 disk_err part_err gpu_none
      gpu_err coll
    by (intro conjI impI) blast+
qed

theorem getters_total_witness:
  "get_memory_info failing_env
     = Inr (VDict [(''Error'', VStr ''Failed to get memory info: no meminfo'')])
   \<and> get_disk_info failing_env
     = Inr [VDict [(''Error'', VStr ''Failed to get disk info: no mounts'')]]
   \<and> get_gpu_info failing_env = Inr [VDict [(''Info'', VStr ''GPUtil package not installed'')]]
   \<and> get_gpu_info (sample_env \<lparr> getGPUs := Inl (PyExc OSError ''nvidia-smi failed'') \<rparr>)
     = Inr [VDict [(''Error'', VStr ''Failed to get GPU info: nvidia-smi failed'')]]
   \<and> (\<exists>entries. get_disk_info sample_env = Inr entries \<and> length entries = 2
         \<and> entries ! 1 = VDict [(''Device'', VStr ''/dev/sr0''),
                                 (''Error'', VStr ''Failed to read partition: denied'')])"
proof -
  let ?p1 = "\<lparr> device = ''/dev/sda1'', mountpoint = ''/'', fstype = ''ext4'' \<rparr>"
  let ?p2 = "\<lparr> device = ''/dev/sr0'', mountpoint = ''/media'', fstype = ''iso9660'' \<rparr>"
  let ?g = "sample_env \<lparr> getGPUs := Inl (PyExc OSError ''nvidia-smi failed'') \<rparr>"
  have vm: "virtual_memory failing_env = Inl (PyExc OSError ''no meminfo'')"
    and dpf: "disk_partitions failing_env = Inl (PyExc OSError ''no mounts'')"
    and hg: "\<not> HAS_GPU failing_env"
    by (simp_all add: failing_env_def)
  have dp: "disk_partitions sample_env = Inr [?p1, ?p2]"
    and du: "disk_usage sample_env ''/media'' = Inl (PyExc OSError ''denied'')"
    and g: "HAS_GPU ?g" "getGPUs ?g = Inl (PyExc OSError ''nvidia-smi failed'')"
    by (simp_all add: sample_env_def)
  note t1 = getters_total
    [where e = failing_env and ex = "PyExc OSError ''no meminfo''" and ps = "[]" and gpus = "[]"
       and sv = "\<lparr> vm_total = 0, vm_available = 0, vm_used = 0, vm_percent = NaN \<rparr>"]
  note t2 = getters_total
    [where e = failing_env and ex = "PyExc OSError ''no mounts''" and ps = "[]" and gpus = "[]"
       and sv = "\<lparr> vm_total = 0, vm_available = 0, vm_used = 0, vm_percent = NaN \<rparr>"]
  note t3 = getters_total
    [where e = ?g and ex = "PyExc OSError ''nvidia-smi failed''" and ps = "[]" and gpus = "[]"
       and sv = "\<lparr> vm_total = 0, vm_available = 0, vm_used = 0, vm_percent = NaN \<rparr>"]
  note t4 = getters_total
    [where e = sample_env and ex = "PyExc OSError ''denied''" and ps = "[?p1, ?p2]" and gpus = "[]"
       and sv = "\<lparr> vm_total = 0, vm_available = 0, vm_used = 0, vm_percent = NaN \<rparr>"]
  have a: "get_memory_info failing_env
     = Inr (VDict [(''Error'', VStr ''Failed to get memory info: no meminfo'')])"
    using t1 vm by simp
  have b: "get_disk_info failing_env
     = Inr [VDict [(''Error'', VStr ''Failed to get disk info: no mounts'')]]"
    using t2 dpf by simp
  have c: "get_gpu_info failing_env = Inr [VDict [(''Info'', VStr ''GPUtil package not installed'')]]"
    using t1 hg by simp
  have d: "get_gpu_info ?g
     = Inr [VDict [(''Error'', VStr ''Failed to get GPU info: nvidia-smi failed'')]]"
    using t3 g by simp
  from t4 dp obtain entries where e1: "get_disk_info sample_env = Inr entries"
    and e2: "length entries = length [?p1, ?p2]"
    and e3: "\<forall>j < length [?p1, ?p2].
               disk_usage sample_env (mountpoint ([?p1, ?p2] ! j)) = Inl (PyExc OSError ''denied'') \<longrightarrow>
               entries ! j =
                 VDict [(''Device'', VStr (device ([?p1, ?p2] ! j))),
                        (''Error'', VStr (''Failed to read partition: ''
                                          @ exc_str (PyExc OSError ''denied'')))]"
    by blast
  from e3 [rule_format, of 1] du
  have e4: "entries ! 1 = VDict [(''Device'', VStr ''/dev/sr0''),
                                 (''Error'', VStr ''Failed to read partition: denied'')]"
    by simp
  have e: "\<exists>entries. get_disk_info sample_env = Inr entries \<and> length entries = 2
         \<and> entries ! 1 = VDict [(''Device'', VStr ''/dev/sr0''),
                                 (''Error'', VStr ''Failed to read partition: denied'')]"
    using e1 e2 e4 by simp
  from a b c d e show ?thesis by blast
qed

lemma int_truediv_gb:
  assumes "0 \<le> n" "n < 2 ^ 53"
  shows "int_truediv n (1024 ^ 3) = Inr (Finite (of_int n / 1024 ^ 3))"
proof -
  have x: "(of_int n / of_int (1024 ^ 3) :: rat) = of_int n * 2 powi (- 30)"
    by (simp add: power_int_minus_divide)
  have "(of_int n :: rat) < of_int (2 ^ 53)" using assms by (simp only: of_int_less_iff)
  then have n53: "(of_int n :: rat) < 2 ^ 53" by simp
  have n0: "(0::rat) \<le> of_int n" using assms by simp
  have "\<bar>of_int n / of_int (1024 ^ 3) :: rat\<bar> = of_int n / 1024 ^ 3" using n0 by simp
  also have "\<dots> \<le> of_int n" using n0 by (simp add: divide_le_eq)
  also have "\<dots> < 2 ^ 1024" using n53 by (rule less_trans) simp
  finally have r: "\<bar>of_int n / of_int (1024 ^ 3) :: rat\<bar> < 2 ^ 1024" .
  have "to_double (of_int n / of_int (1024 ^ 3)) = Finite (of_int n / of_int (1024 ^ 3))"
    using assms by (intro to_double_exact [OF x _ _ r]) simp_all
  then show ?thesis by (simp add: int_truediv_def)
qed

lemma py_round_finite:
  assumes "\<bar>r\<bar> < 2 ^ 1000" "ndigits \<le> 323"
  shows "py_round (Finite r) ndigits
     = Inr (to_double (of_int (round_half_even (r * 10 ^ ndigits)) / 10 ^ ndigits))"
proof -
  let ?z = "r * 10 ^ ndigits"
  let ?d = "of_int (round_half_even ?z) / 10 ^ ndigits :: rat"
  have p: "(1::rat) \<le> 10 ^ ndigits" by simp
  have "\<bar>of_int (round_half_even ?z) - ?z\<bar> \<le> 1 / 2" by (rule round_half_even_close)
  then have "\<bar>of_int (round_half_even ?z) :: rat\<bar> \<le> \<bar>?z\<bar> + 1 / 2" by linarith
  then have "\<bar>?d\<bar> \<le> (\<bar>?z\<bar> + 1 / 2) / 10 ^ ndigits"
    by (simp add: divide_right_mono)
  also have "\<dots> = \<bar>r\<bar> + 1 / 2 / 10 ^ ndigits" by (simp add: add_divide_distrib abs_mult)
  also have "\<dots> \<le> \<bar>r\<bar> + 1 / 2" using p by (simp add: divide_le_eq)
  also have "\<dots> < 2 ^ 1000 + 1 / 2" using assms by simp
  also have "\<dots> < (2::rat) ^ 1023" by simp
  finally have "\<bar>?d\<bar> < 2 ^ 1023" .
  from to_double_finite [OF this] obtain q where "to_double ?d = Finite q" by blast
  then show ?thesis using assms by (simp add: py_round_def)
qed

lemma gigabytes_exact:
  assumes "0 \<le> n" "n < 2 ^ 53"
  shows "gigabytes n
     = Inr (to_double (of_int (round_half_even (of_int n / 1024 ^ 3 * 100)) / 100))"
proof -
  have n0: "(0::rat) \<le> of_int n" using assms by simp
  have "(of_int n :: rat) < of_int (2 ^ 53)" using assms by (simp only: of_int_less_iff)
  then have n53: "(of_int n :: rat) < 2 ^ 53" by simp
  have "\<bar>of_int n / 1024 ^ 3 :: rat\<bar> = of_int n / 1024 ^ 3" using n0 by simp
  also have "\<dots> \<le> of_int n" using n0 by (simp add: divide_le_eq)
  also have "\<dots> < 2 ^ 1000" using n53 by (rule less_trans) simp
  finally have "\<bar>of_int n / 1024 ^ 3 :: rat\<bar> < 2 ^ 1000" .
  then have "py_round (Finite (of_int n / 1024 ^ 3)) 2
     = Inr (to_double (of_int (round_half_even (of_int n / 1024 ^ 3 * 10 ^ 2)) / 10 ^ 2))"
    by (rule py_round_finite) simp
  moreover have "gigabytes n = py_round (Finite (of_int n / 1024 ^ 3)) 2"
    by (simp only: gigabytes_def bind_exc_def int_truediv_gb [OF assms] sum.case)
  moreover have "(10::rat) ^ 2 = 100" by simp
  ultimately show ?thesis by (simp only:)
qed

text \<open>
  C8.  When the memory query succeeds, the getter returns the four keys \<open>Total (GB)\<close>,
  \<open>Available (GB)\<close>, \<open>Used (GB)\<close> and \<open>Percentage (%)\<close>; the first three hold
  \<^verbatim>\<open>round(bytes / 1024 ** 3, 2)\<close> of the three byte counts and the fourth the percentage
  as reported.  For byte counts below \<open>2^53\<close> the division is exact, so each value is the
  float nearest to the quotient \<open>bytes / 1024^3\<close> rounded to two decimal places.
\<close>

theorem get_memory_info_success:
  "(virtual_memory e = Inr sv \<and> gigabytes (vm_total sv) = Inr t
      \<and> gigabytes (vm_available sv) = Inr a \<and> gigabytes (vm_used sv) = Inr u \<longrightarrow>
      get_memory_info e
        = Inr (VDict [(''Total (GB)'', VFloat t), (''Available (GB)'', VFloat a),
                      (''Used (GB)'', VFloat u), (''Percentage (%)'', VFloat (vm_percent sv))]))
   \<and> (virtual_memory e = Inr sv \<and> 0 \<le> vm_total sv \<and> vm_total sv < 2 ^ 53
      \<and> 0 \<le> vm_available sv \<and> vm_available sv < 2 ^ 53
      \<and> 0 \<le> vm_used sv \<and> vm_used sv < 2 ^ 53 \<longrightarrow>
      get_memory_info e
        = Inr (VDict
            [(''Total (GB)'',
                VFloat (to_double
                  (of_int (round_half_even (of_int (vm_total sv) / 1024 ^ 3 * 100)) / 100))),
             (''Available (GB)'',
                VFloat (to_double
                  (of_int (round_half_even (of_int (vm_available sv) / 1024 ^ 3 * 100)) / 100))),
             (''Used (GB)'',
                VFloat (to_double
                  (of_int (round_half_even (of_int (vm_used sv) / 1024 ^ 3 * 100)) / 100))),
             (''Percentage (%)'', VFloat (vm_percent sv))]))"
proof (intro conjI impI)
  assume "virtual_memory e = Inr sv \<and> gigabytes (vm_total sv) = Inr t
      \<and> gigabytes (vm_available sv) = Inr a \<and> gigabytes (vm_used sv) = Inr u"
  then show "get_memory_info e
        = Inr (VDict [(''Total (GB)'', VFloat t), (''Available (GB)'', VFloat a),
                      (''Used (GB)'', VFloat u), (''Percentage (%)'', VFloat (vm_percent sv))])"
    by (simp add: get_memory_info_def try_except_def bind_exc_def)
next
  assume h: "virtual_memory e = Inr sv \<and> 0 \<le> vm_total sv \<and> vm_total sv < 2 ^ 53
      \<and> 0 \<le> vm_available sv \<and> vm_available sv < 2 ^ 53
      \<and> 0 \<le> vm_used sv \<and> vm_used sv < 2 ^ 53"
  then have g: "gigabytes (vm_total sv)
        = Inr (to_double (of_int (round_half_even (of_int (vm_total sv) / 1024 ^ 3 * 100)) / 100))"
      "gigabytes (vm_available sv)
        = Inr (to_double (of_int (round_half_even (of_int (vm_available sv) / 1024 ^ 3 * 100)) / 100))"
      "gigabytes (vm_used sv)
        = Inr (to_double (of_int (round_half_even (of_int (vm_used sv) / 1024 ^ 3 * 100)) / 100))"
    by (simp_all only: gigabytes_exact)
  from h have v: "virtual_memory e = Inr sv" by simp
  show "get_memory_info e
        = Inr (VDict
            [(''Total (GB)'',
                VFloat (to_double
                  (of_int (round_half_even (of_int (vm_total sv) / 1024 ^ 3 * 100)) / 100))),
             (''Available (GB)'',
                VFloat (to_double
                  (of_int (round_half_even (of_int (vm_available sv) / 1024 ^ 3 * 100)) / 100))),
             (''Used (GB)'',
                VFloat (to_double
                  (of_int (round_half_even (of_int (vm_used sv) / 1024 ^ 3 * 100)) / 100))),
             (''Percentage (%)'', VFloat (vm_percent sv))])"
    by (simp add: get_memory_info_def try_except_def bind_exc_def v g)
qed

theorem get_memory_info_success_witness:
  "get_memory_info sample_env
     = Inr (VDict
         [(''Total (GB)'', VFloat (to_double (of_int (round_half_even (16 * 100)) / 100))),
          (''Available (GB)'',
             VFloat (to_double
               (of_int (round_half_even (16658157568 / 1024 ^ 3 * 100)) / 100))),
          (''Used (GB)'',
             VFloat (to_double
               (of_int (round_half_even (521711616 / 1024 ^ 3 * 100)) / 100))),
          (''Percentage (%)'', VFloat (Finite 3))])
   \<and> round_half_even (16658157568 / 1024 ^ 3 * 100) = 1551
   \<and> round_half_even (521711616 / 1024 ^ 3 * 100) = 49"
proof -
  let ?sv = "\<lparr> vm_total = 17179869184, vm_available = 16658157568, vm_used = 521711616,
               vm_percent = Finite 3 \<rparr>"
  have v: "virtual_memory sample_env = Inr ?sv" by (simp add: sample_env_def)
  have r1: "round_half_even (16658157568 / 1024 ^ 3 * 100) = 1551" by code_simp
  have r2: "round_half_even (521711616 / 1024 ^ 3 * 100) = 49" by code_simp
  note r = r1 r2
  from get_memory_info_success [where e = sample_env and sv = ?sv and t = NaN and a = NaN and u = NaN] v
  have "get_memory_info sample_env
        = Inr (VDict
            [(''Total (GB)'',
                VFloat (to_double
                  (of_int (round_half_even (of_int (vm_total ?sv) / 1024 ^ 3 * 100)) / 100))),
             (''Available (GB)'',
                VFloat (to_double
                  (of_int (round_half_even (of_int (vm_available ?sv) / 1024 ^ 3 * 100)) / 100))),
             (''Used (GB)'',
                VFloat (to_double
                  (of_int (round_half_even (of_int (vm_used ?sv) / 1024 ^ 3 * 100)) / 100))),
             (''Percentage (%)'', VFloat (vm_percent ?sv))])"
    by simp
  then show ?thesis using r by simp
qed

section \<open>Properties of the reporter\<close>

lemma csv_writerows_ok:
  "\<forall>i. write_error io filename i = None \<Longrightarrow>
   csv_writerows io filename rows i written = (written @ rows, None)"
  by (induction rows arbitrary: i written) simp_all

text \<open>
  C9.  When the file can be opened, every write succeeds and the file is flushed and closed
  without error, \<open>save_to_csv\<close> leaves in the file the header row \<open>["Property", "Value"]\<close>
  followed by one row \<open>[path, value]\<close> per pair of the flattened report, in flattening
  order: \<open>N + 1\<close> rows of two columns for \<open>N\<close> flattened pairs; and it prints the success
  line when standard output takes it.  When the writes succeed and the closing raises, as
  on a full device, the rows are not all in the file: it holds those that were flushed, and
  the failure line is printed.
\<close>

theorem save_to_csv_rows:
  "(open_error io filename = None \<and> (\<forall>i. write_error io filename i = None)
      \<and> close_error io filename = None \<longrightarrow>
      (\<exists>rows.
         files (save_to_csv io data filename fs) filename = Some (CsvFile rows)
         \<and> length rows = length (flatten_dict data [] '': '') + 1
         \<and> hd rows = [VStr ''Property'', VStr ''Value'']
         \<and> tl rows = map (\<lambda>(key, value). [VStr key, value]) (flatten_dict data [] '': '')
         \<and> (\<forall>row \<in> set rows. length row = 2))
      \<and> (print_error io (saved_message filename) = None \<longrightarrow>
           printed (save_to_csv io data filename fs) = [saved_message filename]
           \<and> raised (save_to_csv io data filename fs) = None))
   \<and> (open_error io filename = None \<and> (\<forall>i. write_error io filename i = None)
      \<and> close_error io filename = Some ex \<and> print_error io (failed_message ''CSV'' ex) = None \<longrightarrow>
      files (save_to_csv io data filename fs) filename
        = Some (CsvFile (take (flushed io filename)
            ([VStr ''Property'', VStr ''Value'']
               # map (\<lambda>(key, value). [VStr key, value]) (flatten_dict data [] '': ''))))
      \<and> printed (save_to_csv io data filename fs) = [failed_message ''CSV'' ex]
      \<and> raised (save_to_csv io data filename fs) = None)"
proof (intro conjI impI)
  let ?rows = "[VStr ''Property'', VStr ''Value'']
                 # map (\<lambda>(key, value). [VStr key, value]) (flatten_dict data [] '': '')"
  {
    assume h: "open_error io filename = None \<and> (\<forall>i. write_error io filename i = None)
      \<and> close_error io filename = None"
    then have w: "csv_writerows io filename ?rows 0 [] = (?rows, None)"
      using csv_writerows_ok [of io filename ?rows 0 "[]"] by simp
    from h have o: "open_error io filename = None" and c: "close_error io filename = None"
      by simp_all
    have t: "csv_try io data filename fs
        = (fs(filename \<mapsto> CsvFile ?rows), print_error io (saved_message filename))"
      unfolding csv_try_def Let_def o w c by simp
    have f: "files (save_to_csv io data filename fs) filename = Some (CsvFile ?rows)"
      by (simp add: save_to_csv_def save_handler_def t split: option.splits)
    have two: "\<forall>row \<in> set ?rows. length row = 2" by auto
    show "\<exists>rows.
         files (save_to_csv io data filename fs) filename = Some (CsvFile rows)
         \<and> length rows = length (flatten_dict data [] '': '') + 1
         \<and> hd rows = [VStr ''Property'', VStr ''Value'']
         \<and> tl rows = map (\<lambda>(key, value). [VStr key, value]) (flatten_dict data [] '': '')
         \<and> (\<forall>row \<in> set rows. length row = 2)"
      by (rule exI [of _ ?rows]) (use f two in simp)
    {
      assume p: "print_error io (saved_message filename) = None"
      show "printed (save_to_csv io data filename fs) = [saved_message filename]"
        by (simp add: save_to_csv_def save_handler_def t p)
      show "raised (save_to_csv io data filename fs) = None"
        by (simp add: save_to_csv_def save_handler_def t p)
    }
  }
  {
    assume h: "open_error io filename = None \<and> (\<forall>i. write_error io filename i = None)
      \<and> close_error io filename = Some ex \<and> print_error io (failed_message ''CSV'' ex) = None"
    then have w: "csv_writerows io filename ?rows 0 [] = (?rows, None)"
      using csv_writerows_ok [of io filename ?rows 0 "[]"] by simp
    from h have o: "open_error io filename = None" and c: "close_error io filename = Some ex"
      by simp_all
    have t: "csv_try io data filename fs
        = (fs(filename \<mapsto> CsvFile (take (flushed io filename) ?rows)), Some ex)"
      unfolding csv_try_def Let_def o w c by simp
    show "files (save_to_csv io data filename fs) filename
        = Some (CsvFile (take (flushed io filename) ?rows))"
      using h by (simp add: save_to_csv_def save_handler_def t)
    show "printed (save_to_csv io data filename fs) = [failed_message ''CSV'' ex]"
      using h by (simp add: save_to_csv_def save_handler_def t)
    show "raised (save_to_csv io data filename fs) = None"
      using h by (simp add: save_to_csv_def save_handler_def t)
  }
qed

theorem save_to_csv_rows_witness:
  "(\<exists>rows.
      files (save_to_csv io_ok [(''A'', VList [VInt 1, VInt 2])] ''out.csv'' Map.empty) ''out.csv''
        = Some (CsvFile rows)
      \<and> length rows = 2 + 1
      \<and> hd rows = [VStr ''Property'', VStr ''Value'']
      \<and> tl rows = [[VStr ''A [0]'', VInt 1], [VStr ''A [1]'', VInt 2]])
   \<and> printed (save_to_csv io_ok [(''A'', VList [VInt 1, VInt 2])] ''out.csv'' Map.empty)
       = [saved_message ''out.csv'']
   \<and> files (save_to_csv io_full [(''A'', VList [VInt 1, VInt 2])] ''/dev/full'' Map.empty)
        ''/dev/full'' = Some (CsvFile [])
   \<and> printed (save_to_csv io_full [(''A'', VList [VInt 1, VInt 2])] ''/dev/full'' Map.empty)
       = [failed_message ''CSV'' (PyExc OSError ''No space left on device'')]"
proof -
  let ?d = "[(''A'', VList [VInt 1, VInt 2])]"
  have o: "open_error io_ok ''out.csv'' = None" "\<forall>i. write_error io_ok ''out.csv'' i = None"
      "close_error io_ok ''out.csv'' = None" "print_error io_ok (saved_message ''out.csv'') = None"
    by (simp_all add: io_ok_def)
  have u: "open_error io_full ''/dev/full'' = None" "\<forall>i. write_error io_full ''/dev/full'' i = None"
      "close_error io_full ''/dev/full'' = Some (PyExc OSError ''No space left on device'')"
      "print_error io_full (failed_message ''CSV'' (PyExc OSError ''No space left on device'')) = None"
      "flushed io_full ''/dev/full'' = 0"
    by (simp_all add: io_full_def)
  have f: "flatten_dict ?d [] '': '' = [(''A [0]'', VInt 1), (''A [1]'', VInt 2)]"
    by (simp add: py_dict_def new_key_def index_key_def digit_char_def)
  note a = save_to_csv_rows
    [where io = io_ok and filename = "''out.csv''" and data = ?d and fs = Map.empty
       and ex = "PyExc OSError ''No space left on device''"]
  note b = save_to_csv_rows
    [where io = io_full and filename = "''/dev/full''" and data = ?d and fs = Map.empty
       and ex = "PyExc OSError ''No space left on device''"]
  from a o have 1: "\<exists>rows.
      files (save_to_csv io_ok ?d ''out.csv'' Map.empty) ''out.csv'' = Some (CsvFile rows)
      \<and> length rows = 2 + 1
      \<and> hd rows = [VStr ''Property'', VStr ''Value'']
      \<and> tl rows = [[VStr ''A [0]'', VInt 1], [VStr ''A [1]'', VInt 2]]"
    unfolding f by auto
  from a o have 2: "printed (save_to_csv io_ok ?d ''out.csv'' Map.empty) = [saved_message ''out.csv'']"
    by blast
  from b u have 3: "files (save_to_csv io_full ?d ''/dev/full'' Map.empty) ''/dev/full''
      = Some (CsvFile [])"
    by simp
  from b u have 4: "printed (save_to_csv io_full ?d ''/dev/full'' Map.empty)
       = [failed_message ''CSV'' (PyExc OSError ''No space left on device'')]"
    by blast
  from 1 2 3 4 show ?thesis by blast
qed












end
